theory Spec2Isabelle
  imports Main
begin

section \<open>The web application: \<open>RootLayout\<close> and \<open>Home\<close>\<close>

text \<open>
  The two React components of \<open>apps/web\<close> return JSX. A JSX expression is modelled as the
  element tree it evaluates to: an element has a tag, its attributes in source order and
  its child nodes; text is a leaf. JSX comments (\<open>{/* ... */}\<close>) and the whitespace
  between elements that contains a line break produce no child node.
\<close>

datatype attr_value = Str string | Num int | Flag bool

datatype node = Element string "(string \<times> attr_value) list" "node list" | Text string

text \<open>
  \<open>process.env\<close> is a map from variable names to strings; an unset variable reads as
  \<open>undefined\<close>, modelled as \<open>None\<close>.
\<close>

type_synonym process_env = "string \<rightharpoonup> string"

text \<open>
  JavaScript's \<open>v || d\<close> for \<open>v\<close> a string or \<open>undefined\<close>: \<open>undefined\<close> and the empty
  string are falsy, every other string is truthy and is the result.
\<close>

definition or_default :: "string option \<Rightarrow> string \<Rightarrow> string" where
  "or_default v d = (case v of None \<Rightarrow> d | Some s \<Rightarrow> if s = [] then d else s)"

text \<open>\<open>RootLayout({ children })\<close>: \<open>children\<close> is spliced into the container element.\<close>

definition RootLayout :: "process_env \<Rightarrow> node list \<Rightarrow> node" where
  "RootLayout env children =
     Element ''html'' [(''lang'', Str ''de''), (''suppressHydrationWarning'', Flag True)]
       [Element ''head'' []
          [Element ''link''
             [(''rel'', Str ''preconnect''),
              (''href'', Str (or_default (env ''NEXT_PUBLIC_API_BASE_URL'')
                                ''http://localhost:8000''))]
             []],
        Element ''body'' []
          [Element ''a'' [(''href'', Str ''#main-content''), (''className'', Str ''skip-link'')]
             [Text ''Skip to main content''],
           Element ''div'' [(''id'', Str ''main-content''), (''tabIndex'', Num (- 1))]
             children]]"

text \<open>\<open>Home()\<close>: the starter page; its last paragraph shows the configured API base.\<close>

definition Home :: "process_env \<Rightarrow> node" where
  "Home env =
     Element ''main'' [(''className'', Str ''container py-8'')]
       [Element ''header'' [(''className'', Str ''mb-8'')]
          [Element ''h1'' [(''className'', Str ''text-2xl font-bold text-primary-700'')]
             [Text ''KlarText''],
           Element ''p'' [(''className'', Str ''text-lg text-[var(--color-text-secondary)]'')]
             [Text ''Turn complex text into easy-to-understand language'']],
        Element ''section''
          [(''aria-labelledby'', Str ''input-heading''), (''className'', Str ''mb-8'')]
          [Element ''h2'' [(''id'', Str ''input-heading''), (''className'', Str ''sr-only'')]
             [Text ''Text Input''],
           Element ''p'' [(''className'', Str ''text-[var(--color-text-secondary)]'')]
             [Text ''Starter skeleton. Replace with the accessibility-first UI.''],
           Element ''p''
             [(''className'', Str ''text-sm mt-4 text-[var(--color-text-secondary)]'')]
             [Text ''API base: '',
              Text (or_default (env ''NEXT_PUBLIC_API_BASE_URL'') ''Not configured'')]]]"

subsection \<open>Reading a rendered tree\<close>

fun tag_of :: "node \<Rightarrow> string option" where
  "tag_of (Element t as ks) = Some t"
| "tag_of (Text s) = None"

fun attr :: "string \<Rightarrow> node \<Rightarrow> attr_value option" where
  "attr a (Element t as ks) = map_of as a"
| "attr a (Text s) = None"

fun kids :: "node \<Rightarrow> node list" where
  "kids (Element t as ks) = ks"
| "kids (Text s) = []"

text \<open>The first child that is an element with the given tag.\<close>

fun child_tagged :: "string \<Rightarrow> node list \<Rightarrow> node option" where
  "child_tagged t [] = None"
| "child_tagged t (k # ks) = (if tag_of k = Some t then Some k else child_tagged t ks)"

text \<open>The first child that is an element at all.\<close>

fun first_element :: "node list \<Rightarrow> node option" where
  "first_element [] = None"
| "first_element (Text s # ks) = first_element ks"
| "first_element (Element t as cs # ks) = Some (Element t as cs)"

text \<open>
  The first element, in document order (an element before its descendants), that carries
  the attribute \<open>a\<close> with value \<open>v\<close>; with \<open>a = ''id''\<close> this is \<open>getElementById\<close>.
\<close>

fun find_attr :: "string \<Rightarrow> attr_value \<Rightarrow> node \<Rightarrow> node option"
  and find_attr_list :: "string \<Rightarrow> attr_value \<Rightarrow> node list \<Rightarrow> node option" where
  "find_attr a v (Text s) = None"
| "find_attr a v (Element t as ks) =
     (if map_of as a = Some v then Some (Element t as ks) else find_attr_list a v ks)"
| "find_attr_list a v [] = None"
| "find_attr_list a v (k # ks) =
     (case find_attr a v k of Some n \<Rightarrow> Some n | None \<Rightarrow> find_attr_list a v ks)"

definition body_of :: "node \<Rightarrow> node option" where
  "body_of root = child_tagged ''body'' (kids root)"

definition skip_link_of :: "node \<Rightarrow> node option" where
  "skip_link_of root = Option.bind (body_of root) (\<lambda>b. first_element (kids b))"

definition preconnect_href :: "node \<Rightarrow> attr_value option" where
  "preconnect_href root =
     Option.bind (find_attr ''rel'' (Str ''preconnect'') root) (attr ''href'')"

definition api_base_line :: "node \<Rightarrow> node list option" where
  "api_base_line page =
     map_option kids
       (find_attr ''className'' (Str ''text-sm mt-4 text-[var(--color-text-secondary)]'') page)"

section \<open>The fallback controller\<close>

text \<open>
  The repository's files describe the simplification pipeline only as a design
  (\<open>hybrid_arch.md\<close>: "Retry with stricter prompt", "Switch between local and API",
  "Return could-not-safely-simplify message"); no implementation of it is among them.
  The definitions of this section are therefore written from the specification
  (sections 3, 4.3, 4.4, 4.7 and 7), and each says so.
\<close>

text \<open>
  Modelled from the spec: the Router's two outputs (4.3), "inference path in {local,
  remote}, prompt strictness tier in {standard, strict}". No router code exists in the
  repository's files.
\<close>

datatype path = Local | Remote

datatype tier = Standard | Strict

type_synonym selection = "path \<times> tier"

text \<open>
  Modelled from the spec: the Inference Adapter's failures (4.4), \<open>Timeout\<close> distinct from
  \<open>ProviderRejected\<close> and \<open>ProviderUnavailable\<close>. No adapter code exists in the repository's
  files.
\<close>

datatype provider_error = Timeout | ProviderRejected | ProviderUnavailable

text \<open>
  Modelled from the spec: re-routing on fallback (4.3), "always escalates (local to remote,
  standard to strict), never the reverse"; the failure scenario of section 8 escalates
  both at once ("escalates to remote/strict"). No router code exists in the repository's
  files.
\<close>

fun escalate_path :: "path \<Rightarrow> path" where
  "escalate_path Local = Remote"
| "escalate_path Remote = Remote"

fun escalate_tier :: "tier \<Rightarrow> tier" where
  "escalate_tier Standard = Strict"
| "escalate_tier Strict = Strict"

definition escalate :: "selection \<Rightarrow> selection" where
  "escalate sel = (escalate_path (fst sel), escalate_tier (snd sel))"

text \<open>
  Modelled from the spec: the strictness order of section 8, local below remote and
  standard below strict; a selection is at most as strict as another when both its path
  and its tier are.
\<close>

fun path_rank :: "path \<Rightarrow> nat" where
  "path_rank Local = 0"
| "path_rank Remote = 1"

fun tier_rank :: "tier \<Rightarrow> nat" where
  "tier_rank Standard = 0"
| "tier_rank Strict = 1"

definition at_most_as_strict :: "selection \<Rightarrow> selection \<Rightarrow> bool" where
  "at_most_as_strict a b =
     (path_rank (fst a) \<le> path_rank (fst b) \<and> tier_rank (snd a) \<le> tier_rank (snd b))"

text \<open>
  Modelled from the spec: the InferenceRequest of section 3, "chunk reference, prompt tier,
  target language/level, attempt number", one per attempt. The chunk reference \<open>'c\<close> stands
  for the chunk with its document's target language and level, which do not change
  between attempts; \<open>req_path\<close> is the provider the Router selected for the attempt.
\<close>

record 'c InferenceRequest =
  chunk :: 'c
  req_path :: path
  req_tier :: tier
  attempt :: nat

definition sel_of :: "'c InferenceRequest \<Rightarrow> selection" where
  "sel_of r = (req_path r, req_tier r)"

text \<open>
  Modelled from the spec: the collaborators of one chunk's pipeline pass and the retry
  budget. \<open>adapter\<close> is the Inference Adapter (4.4: text or a provider error),
  \<open>post_process\<close> the Post-Processor (4.5: a pure function of the raw text), \<open>verify\<close> the
  Verifier's overall verdict on (source chunk, processed output) (4.6), \<open>maxAttempts\<close> the
  "fixed configured bound" of 4.7. None of them exists in the repository's files; they
  are parameters, so every result holds for all providers and verifiers.
\<close>

record 'c pipeline =
  adapter :: "'c InferenceRequest \<Rightarrow> provider_error + string"
  post_process :: "string \<Rightarrow> string"
  verify :: "'c \<Rightarrow> string \<Rightarrow> bool"
  maxAttempts :: nat

text \<open>
  Modelled from the spec: the states of the Fallback Controller (4.7), \<open>Attempting(n)\<close>,
  \<open>Verifying\<close>, \<open>Escalating\<close>, \<open>SafeFallback\<close>, \<open>Done\<close>. \<open>Verifying\<close> and \<open>Escalating\<close> keep the
  attempt number, and \<open>Verifying\<close> the processed output under verification (\<open>None\<close> when
  the provider failed), which the transitions of 4.7 refer to.
\<close>

datatype phase =
  Attempting nat | Verifying nat "string option" | Escalating nat | SafeFallback | Done string

text \<open>
  Modelled from the spec: one chunk's controller: its state, the Router's current
  selection, and the requests issued to the Inference Adapter so far, oldest first.
\<close>

record 'c controller =
  phase :: phase
  selection :: selection
  issued :: "'c InferenceRequest list"



text \<open>
  Modelled from the spec: one attempt's data flow (section 2), Inference Adapter, then
  Post-Processor, then Verifier. A provider error leaves nothing to verify and counts as
  a failed attempt (section 7: adapter failures are "retried by Fallback Controller up to
  its bound, then escalate or fallback").
\<close>

definition candidate_of :: "'c pipeline \<Rightarrow> 'c InferenceRequest \<Rightarrow> string option" where
  "candidate_of P r =
     (case adapter P r of Inl e \<Rightarrow> None | Inr raw \<Rightarrow> Some (post_process P raw))"



text \<open>
  Modelled from the spec: the transitions of 4.7. \<open>Attempting(n)\<close> issues the request to
  the adapter and moves to \<open>Verifying\<close>. "On success at any attempt, move to Done with the
  verified output"; "on failure with attempt count n < maxAttempts, move to Escalating
  (Router escalates path/tier), then back to Attempting(n+1)"; "on failure with
  n == maxAttempts, move to SafeFallback". The spec gives no transition for a failure
  with \<open>n > maxAttempts\<close>, and none out of \<open>SafeFallback\<close> or \<open>Done\<close>: \<open>None\<close>.
\<close>

definition step :: "'c pipeline \<Rightarrow> 'c \<Rightarrow> 'c controller \<Rightarrow> 'c controller option" where
  "step P c s =
     (case phase s of
        Attempting n \<Rightarrow>
          (let r = \<lparr>chunk = c, req_path = fst (selection s), req_tier = snd (selection s),
                    attempt = n\<rparr>
           in Some (s\<lparr>phase := Verifying n (candidate_of P r), issued := issued s @ [r]\<rparr>))
      | Verifying n out \<Rightarrow>
          (case out of
             Some t \<Rightarrow>
               if verify P c t then Some (s\<lparr>phase := Done t\<rparr>)
               else if n < maxAttempts P then Some (s\<lparr>phase := Escalating n\<rparr>)
               else if n = maxAttempts P then Some (s\<lparr>phase := SafeFallback\<rparr>)
               else None
           | None \<Rightarrow>
               if n < maxAttempts P then Some (s\<lparr>phase := Escalating n\<rparr>)
               else if n = maxAttempts P then Some (s\<lparr>phase := SafeFallback\<rparr>)
               else None)
      | Escalating n \<Rightarrow>
          Some (s\<lparr>phase := Attempting (n + 1), selection := escalate (selection s)\<rparr>)
      | SafeFallback \<Rightarrow> None
      | Done t \<Rightarrow> None)"

text \<open>
  The controller runs until no transition applies. Every transition lowers \<open>remaining\<close>,
  so the run is a total function: the machine cannot loop.
\<close>

fun remaining :: "nat \<Rightarrow> phase \<Rightarrow> nat" where
  "remaining m (Attempting n) = 3 * (m + 1 - n) + 2"
| "remaining m (Verifying n out) = 3 * (m + 1 - n) + 1"
| "remaining m (Escalating n) = 3 * (m - n) + 3"
| "remaining m SafeFallback = 0"
| "remaining m (Done t) = 0"

function run :: "'c pipeline \<Rightarrow> 'c \<Rightarrow> 'c controller \<Rightarrow> 'c controller" where
  "run P c s = (case step P c s of None \<Rightarrow> s | Some s' \<Rightarrow> run P c s')"
  by pat_completeness auto
termination
  by (relation "measure (\<lambda>(P, c, s). remaining (maxAttempts P) (phase s))")
     (auto simp add: step_def Let_def split: phase.splits option.splits if_splits)

declare run.simps [simp del]

text \<open>
  Modelled from the spec: a chunk enters the controller at its first attempt, with the
  selection the Router made for it. The first attempt is \<open>Attempting(1)\<close>: with the
  recommended budget of 2 the failure scenario of section 8 "retries once".
\<close>

definition start :: "selection \<Rightarrow> 'c controller" where
  "start sel = \<lparr>phase = Attempting 1, selection = sel, issued = []\<rparr>"

definition fallback_controller :: "'c pipeline \<Rightarrow> 'c \<Rightarrow> selection \<Rightarrow> 'c controller" where
  "fallback_controller P c sel = run P c (start sel)"

subsection \<open>Invariants of a run\<close>


text \<open>
  The \<open>i\<close>-th request carries the initial selection escalated \<open>i\<close> times, and the current
  selection is the one of the next request (while attempting) or of the last one.
\<close>

definition trace_inv :: "selection \<Rightarrow> 'c controller \<Rightarrow> bool" where
  "trace_inv sel s =
     (map sel_of (issued s) = map (\<lambda>i. (escalate ^^ i) sel) [0..<length (issued s)]
      \<and> (case phase s of
            Attempting n \<Rightarrow> selection s = (escalate ^^ length (issued s)) sel
          | _ \<Rightarrow> issued s \<noteq> [] \<and> selection s = (escalate ^^ (length (issued s) - 1)) sel))"

subsection \<open>An example configuration\<close>

text \<open>
  A provider that answers "50 days" for the source "15 days" on every attempt, no
  post-processing, and a verifier that accepts only the unchanged source text.
\<close>

definition changed_digit_pipeline :: "nat \<Rightarrow> string pipeline" where
  "changed_digit_pipeline m =
     \<lparr>adapter = (\<lambda>r. Inr ''50 days''), post_process = (\<lambda>t. t),
      verify = (\<lambda>c t. t = c), maxAttempts = m\<rparr>"

section \<open>Properties of the components\<close>

text \<open>
  C9. Whatever the children are, \<open>RootLayout\<close> renders an \<open>html\<close> element whose \<open>lang\<close>
  attribute is the constant \<open>de\<close>; the first element of its body is the skip link, an
  anchor to \<open>#main-content\<close>; and the element with id \<open>main-content\<close> is a container with
  \<open>tabIndex\<close> \<open>-1\<close> whose children are exactly the given children.
\<close>

theorem RootLayout_lang_skip_link_container:
  "tag_of (RootLayout env children) = Some ''html''
   \<and> attr ''lang'' (RootLayout env children) = Some (Str ''de'')
   \<and> skip_link_of (RootLayout env children) =
       Some (Element ''a'' [(''href'', Str ''#main-content''), (''className'', Str ''skip-link'')]
               [Text ''Skip to main content''])
   \<and> Option.bind (skip_link_of (RootLayout env children)) (attr ''href'')
       = Some (Str ''#main-content'')
   \<and> find_attr ''id'' (Str ''main-content'') (RootLayout env children) =
       Some (Element ''div'' [(''id'', Str ''main-content''), (''tabIndex'', Num (- 1))] children)
   \<and> Option.bind (find_attr ''id'' (Str ''main-content'') (RootLayout env children))
         (attr ''tabIndex'') = Some (Num (- 1))
   \<and> map_option kids (find_attr ''id'' (Str ''main-content'') (RootLayout env children))
       = Some children"
  by (simp add: RootLayout_def skip_link_of_def body_of_def)

text \<open>
  C10. When \<open>NEXT_PUBLIC_API_BASE_URL\<close> is unset or empty, the preconnect link of
  \<open>RootLayout\<close> points to \<open>http://localhost:8000\<close> while \<open>Home\<close> shows \<open>Not configured\<close>:
  two different fallbacks. When the variable holds a non-empty string, both use exactly
  that string.
\<close>

theorem api_base_url_fallbacks:
  "((env ''NEXT_PUBLIC_API_BASE_URL'' = None \<or> env ''NEXT_PUBLIC_API_BASE_URL'' = Some [])
      \<longrightarrow> preconnect_href (RootLayout env children) = Some (Str ''http://localhost:8000'')
        \<and> api_base_line (Home env) = Some [Text ''API base: '', Text ''Not configured'']
        \<and> preconnect_href (RootLayout env children) \<noteq> Some (Str ''Not configured''))
   \<and> (env ''NEXT_PUBLIC_API_BASE_URL'' = Some v \<and> v \<noteq> []
      \<longrightarrow> preconnect_href (RootLayout env children) = Some (Str v)
        \<and> api_base_line (Home env) = Some [Text ''API base: '', Text v])"
  by (auto simp add: RootLayout_def Home_def preconnect_href_def api_base_line_def
        or_default_def)

theorem api_base_url_fallbacks_witness:
  "preconnect_href (RootLayout Map.empty []) = Some (Str ''http://localhost:8000'')
   \<and> api_base_line (Home Map.empty) = Some [Text ''API base: '', Text ''Not configured'']
   \<and> preconnect_href (RootLayout [''NEXT_PUBLIC_API_BASE_URL'' \<mapsto> ''https://api.example.org''] [])
       = Some (Str ''https://api.example.org'')
   \<and> api_base_line (Home [''NEXT_PUBLIC_API_BASE_URL'' \<mapsto> ''https://api.example.org''])
       = Some [Text ''API base: '', Text ''https://api.example.org'']"
  using api_base_url_fallbacks [of Map.empty "[]" "''x''"]
        api_base_url_fallbacks
          [of "[''NEXT_PUBLIC_API_BASE_URL'' \<mapsto> ''https://api.example.org'']" "[]"
              "''https://api.example.org''"]
  by simp

section \<open>Properties of the fallback controller\<close>

subsection \<open>Invariants are kept by every transition and by the run\<close>





lemma trace_inv_step:
  assumes "trace_inv sel s" and "step P c s = Some s'"
  shows "trace_inv sel s'"
proof (cases "phase s")
  case (Attempting n)
  with assms show ?thesis
    by (auto simp add: trace_inv_def step_def Let_def sel_of_def)
next
  case (Verifying n out)
  with assms show ?thesis
    by (auto simp add: trace_inv_def step_def split: option.splits if_splits)
next
  case (Escalating n)
  with assms have ne: "issued s \<noteq> []" by (simp add: trace_inv_def)
  then have "Suc (length (issued s) - 1) = length (issued s)" by (cases "issued s") simp_all
  then have "(escalate ^^ length (issued s)) sel
      = escalate ((escalate ^^ (length (issued s) - 1)) sel)"
    by (metis funpow.simps(2) o_apply)
  with Escalating assms show ?thesis
    by (auto simp add: trace_inv_def step_def)
next
  case SafeFallback
  with assms show ?thesis by (simp add: step_def)
next
  case (Done t)
  with assms show ?thesis by (simp add: step_def)
qed




lemma trace_inv_run: "trace_inv sel s \<Longrightarrow> trace_inv sel (run P c s)"
proof (induction P c s rule: run.induct)
  case (1 P c s)
  show ?case
  proof (cases "step P c s")
    case None
    with "1.prems" show ?thesis by (simp add: run.simps [of P c s])
  next
    case (Some s')
    with "1.prems" have "trace_inv sel s'" by (simp add: trace_inv_step)
    with "1.IH" Some show ?thesis by (simp add: run.simps [of P c s])
  qed
qed


lemma trace_inv_start: "trace_inv sel (start sel)"
  by (simp add: trace_inv_def start_def)

lemma at_most_as_strict_refl: "at_most_as_strict a a"
  by (simp add: at_most_as_strict_def)

lemma at_most_as_strict_trans:
  "at_most_as_strict a b \<Longrightarrow> at_most_as_strict b d \<Longrightarrow> at_most_as_strict a d"
  by (auto simp add: at_most_as_strict_def)

lemma at_most_as_strict_escalate: "at_most_as_strict a (escalate a)"
proof -
  have "path_rank p \<le> path_rank (escalate_path p)" for p by (cases p) simp_all
  moreover have "tier_rank t \<le> tier_rank (escalate_tier t)" for t by (cases t) simp_all
  ultimately show ?thesis by (simp add: at_most_as_strict_def escalate_def)
qed

lemma escalate_iterates_mono:
  "i \<le> j \<Longrightarrow> at_most_as_strict ((escalate ^^ i) sel) ((escalate ^^ j) sel)"
proof (induction j)
  case 0
  then show ?case by (simp add: at_most_as_strict_refl)
next
  case (Suc j)
  show ?case
  proof (cases "i = Suc j")
    case True
    then show ?thesis by (simp add: at_most_as_strict_refl)
  next
    case False
    with Suc.prems have "i \<le> j" by simp
    then have "at_most_as_strict ((escalate ^^ i) sel) ((escalate ^^ j) sel)" by (rule Suc.IH)
    moreover have "at_most_as_strict ((escalate ^^ j) sel) ((escalate ^^ Suc j) sel)"
      by (simp add: at_most_as_strict_escalate)
    ultimately show ?thesis by (rule at_most_as_strict_trans)
  qed
qed

lemma escalate_top: "escalate sel = (Remote, Strict)"
proof -
  have "escalate_path p = Remote" for p by (cases p) simp_all
  moreover have "escalate_tier t = Strict" for t by (cases t) simp_all
  ultimately show ?thesis by (simp add: escalate_def)
qed

lemma escalate_iterates_top: "0 < i \<Longrightarrow> (escalate ^^ i) sel = (Remote, Strict)"
  by (cases i) (simp_all add: escalate_top)

lemma sorted_escalate_iterates:
  "sorted_wrt at_most_as_strict (map (\<lambda>i. (escalate ^^ i) sel) [0..<n])"
  by (simp add: sorted_wrt_map sorted_wrt_iff_nth_less escalate_iterates_mono)

lemma tl_escalate_iterates:
  "list_all (\<lambda>x. x = (Remote, Strict)) (tl (map (\<lambda>i. (escalate ^^ i) sel) [0..<n]))"
  by (simp add: map_tl [symmetric] tl_upt list_all_iff escalate_iterates_top)




text \<open>
  C8. Across the attempts for one chunk, the (path, tier) selections of the issued
  requests are non-decreasing in strictness: every earlier selection is at most as strict
  as every later one. The \<open>i\<close>-th request carries the initial selection escalated \<open>i\<close>
  times, so every retry runs on the remote path with the strict tier.
\<close>

theorem escalation_never_reverts:
  "sorted_wrt at_most_as_strict (map sel_of (issued (fallback_controller P c sel)))
   \<and> map sel_of (issued (fallback_controller P c sel))
       = map (\<lambda>i. (escalate ^^ i) sel) [0..<length (issued (fallback_controller P c sel))]
   \<and> list_all (\<lambda>x. x = (Remote, Strict))
       (tl (map sel_of (issued (fallback_controller P c sel))))"
proof -
  let ?f = "fallback_controller P c sel"
  have "trace_inv sel ?f"
    unfolding fallback_controller_def by (rule trace_inv_run) (rule trace_inv_start)
  then have eq: "map sel_of (issued ?f) = map (\<lambda>i. (escalate ^^ i) sel) [0..<length (issued ?f)]"
    by (simp add: trace_inv_def)
  show ?thesis
    using sorted_escalate_iterates [of sel "length (issued ?f)"]
      tl_escalate_iterates [of sel "length (issued ?f)"] eq
    by simp
qed

theorem escalation_never_reverts_witness:
  "map sel_of (issued (fallback_controller (changed_digit_pipeline 3) ''15 days''
      (Local, Standard)))
     = [(Local, Standard), (Remote, Strict), (Remote, Strict)]
   \<and> sorted_wrt at_most_as_strict
       (map sel_of (issued (fallback_controller (changed_digit_pipeline 3) ''15 days''
          (Local, Standard))))"
  using escalation_never_reverts
    [of "changed_digit_pipeline 3" "''15 days''" "(Local, Standard)"]
  by (simp add: fallback_controller_def start_def run.simps step_def
      changed_digit_pipeline_def candidate_of_def escalate_def sel_of_def)

end
